theory Spec2Isabelle
  imports Complex_Main "HOL-Library.AList"
begin

section \<open>Values of the extraction documents\<close>

text \<open>
  The documents handled by \<^verbatim>\<open>backend/app/main.py\<close> are what \<^verbatim>\<open>json.loads\<close> returns:
  null, booleans, numbers, strings, lists and dictionaries with string keys. A dictionary
  is kept as its list of items in insertion order (Python dictionaries keep that order and
  hold each key once). Numbers are exact rationals: the development reasons about the
  arithmetic of the scoring rules, not about the binary representation of a double, and
  has no NaN or infinity.
\<close>

datatype json =
    JNull
  | JBool bool
  | JNum rat
  | JStr string
  | JList "json list"
  | JDict "(string \<times> json) list"

type_synonym pydict = "(string \<times> json) list"

text \<open>Exceptions carry the text that \<^verbatim>\<open>str(e)\<close> returns.\<close>

datatype py_exc =
    ValidationError string
  | TypeError string
  | OtherException string

fun exc_str :: "py_exc \<Rightarrow> string" where
  "exc_str (ValidationError m) = m"
| "exc_str (TypeError m) = m"
| "exc_str (OtherException m) = m"

text \<open>\<^verbatim>\<open>d.get(k)\<close> (None when the key is missing) and \<^verbatim>\<open>d.get(k, default)\<close>.\<close>

definition py_get :: "pydict \<Rightarrow> string \<Rightarrow> json" where
  "py_get d k = (case map_of d k of None \<Rightarrow> JNull | Some v \<Rightarrow> v)"

definition py_get_default :: "pydict \<Rightarrow> string \<Rightarrow> json \<Rightarrow> json" where
  "py_get_default d k dflt = (case map_of d k of None \<Rightarrow> dflt | Some v \<Rightarrow> v)"

text \<open>Truth value of an object, as \<^verbatim>\<open>if val\<close>, \<^verbatim>\<open>not val\<close> and \<^verbatim>\<open>a or b\<close> test it.\<close>

fun truthy :: "json \<Rightarrow> bool" where
  "truthy JNull = False"
| "truthy (JBool b) = b"
| "truthy (JNum x) = (x \<noteq> 0)"
| "truthy (JStr s) = (s \<noteq> [])"
| "truthy (JList xs) = (xs \<noteq> [])"
| "truthy (JDict d) = (d \<noteq> [])"

definition py_or :: "json \<Rightarrow> json \<Rightarrow> json" where
  "py_or a b = (if truthy a then a else b)"

text \<open>
  \<^verbatim>\<open>{**a, **b}\<close>: the items of \<open>a\<close>, then each item of \<open>b\<close> from left to right, an
  existing key keeping its position and taking the new value.
\<close>

definition dict_merge :: "pydict \<Rightarrow> pydict \<Rightarrow> pydict" where
  "dict_merge a b = fold (\<lambda>(k, v). AList.update k v) b a"

text \<open>
  \<^verbatim>\<open>round(x, n)\<close> on a float rounds to the nearest multiple of \<open>10\<^sup>-\<^sup>n\<close>, a tie going to
  the even neighbour.
\<close>

definition round_half_even :: "rat \<Rightarrow> int" where
  "round_half_even y =
     (let f = \<lfloor>y\<rfloor>; d = y - of_int f
      in if d < 1 / 2 then f
         else if 1 / 2 < d then f + 1
         else if even f then f else f + 1)"

definition py_round :: "rat \<Rightarrow> nat \<Rightarrow> rat" where
  "py_round x n = of_int (round_half_even (x * 10 ^ n)) / 10 ^ n"

section \<open>compute\_contract\_score\<close>

definition weights :: "(string \<times> rat) list" where
  "weights =
     [(''financial_completeness'', 30),
      (''party_identification'', 25),
      (''payment_terms_clarity'', 20),
      (''sla_definition'', 15),
      (''contact_information'', 10)]"

text \<open>
  One round of \<^verbatim>\<open>score += value * weight\<close>. The function is untyped in the source: a
  number or a boolean multiplies, every other value ends in a TypeError (None and a
  dictionary at the product, a string or a list at the sum with the float).
\<close>

fun add_weighted :: "rat \<Rightarrow> json \<Rightarrow> rat \<Rightarrow> py_exc + rat" where
  "add_weighted score (JNum x) weight = Inr (score + x * weight)"
| "add_weighted score (JBool b) weight = Inr (score + (if b then 1 else 0) * weight)"
| "add_weighted score v weight = Inl (TypeError ''unsupported operand type(s)'')"

fun score_loop :: "pydict \<Rightarrow> (string \<times> rat) list \<Rightarrow> rat \<Rightarrow> py_exc + rat" where
  "score_loop confidence_scores [] score = Inr score"
| "score_loop confidence_scores ((key, weight) # rest) score =
     (case add_weighted score (py_get_default confidence_scores key (JNum 0)) weight of
        Inl e \<Rightarrow> Inl e
      | Inr score' \<Rightarrow> score_loop confidence_scores rest score')"

definition compute_contract_score :: "pydict \<Rightarrow> py_exc + rat" where
  "compute_contract_score confidence_scores =
     (case score_loop confidence_scores weights 0 of
        Inl e \<Rightarrow> Inl e
      | Inr score \<Rightarrow> Inr (py_round score 2))"

text \<open>A mapping of category names to floats, seen as a dictionary of values.\<close>

definition float_dict :: "(string \<times> rat) list \<Rightarrow> pydict" where
  "float_dict m = map (\<lambda>(k, x). (k, JNum x)) m"


section \<open>derive\_confidence\_and\_gaps\<close>

text \<open>The scoring categories with the extraction field each one reads, in the order of the loop.\<close>

definition mapping :: "(string \<times> string) list" where
  "mapping =
     [(''financial_completeness'', ''financial_details''),
      (''party_identification'', ''party_identification''),
      (''payment_terms_clarity'', ''payment_structure''),
      (''sla_definition'', ''service_level_agreements''),
      (''contact_information'', ''account_information'')]"

text \<open>
  \<^verbatim>\<open>str.strip()\<close> removes leading and trailing whitespace. Strings are byte strings here,
  so the whitespace is the ASCII one: tab, line feed, vertical tab, form feed, carriage
  return, the four separators 0x1C to 0x1F and the space.
\<close>

definition is_space :: "char \<Rightarrow> bool" where
  "is_space c =
     (c \<in> set [CHR 0x09, CHR 0x0A, CHR 0x0B, CHR 0x0C, CHR 0x0D,
                CHR 0x1C, CHR 0x1D, CHR 0x1E, CHR 0x1F, CHR 0x20])"

definition strip :: "string \<Rightarrow> string" where
  "strip s = rev (dropWhile is_space (rev (dropWhile is_space s)))"

text \<open>\<^verbatim>\<open>v not in (None, "", [], {})\<close>: membership in a tuple compares with \<^verbatim>\<open>==\<close>.\<close>

definition not_in_empties :: "json \<Rightarrow> bool" where
  "not_in_empties v = (v \<notin> set [JNull, JStr [], JList [], JDict []])"

text \<open>
  The \<^verbatim>\<open>if\<close>/\<^verbatim>\<open>elif\<close> chain on \<^verbatim>\<open>val\<close>: the derived confidence, and whether the
  field name is appended to \<^verbatim>\<open>gaps\<close>. A missing key reads as None.
\<close>

fun derive_value :: "json \<Rightarrow> rat \<times> bool" where
  "derive_value JNull = (0, True)"
| "derive_value (JStr s) = (if strip s \<noteq> [] then 9 / 10 else 0, False)"
| "derive_value (JDict d) =
     (if d = [] then (0, True)
      else let non_empty = length (filter not_in_empties (map snd d));
               total_keys = max 1 (length d)
           in (min 1 (of_nat non_empty / of_nat total_keys), False))"
| "derive_value v = (if truthy v then 8 / 10 else 0, False)"

text \<open>
  \<^verbatim>\<open>float(x)\<close>: a number is itself, a boolean is 0 or 1, a string is parsed (the parser
  of the built-in is the parameter \<open>str_float\<close>, None when it raises ValueError), and
  None, a list or a dictionary raise TypeError.
\<close>

fun py_float :: "(string \<Rightarrow> rat option) \<Rightarrow> json \<Rightarrow> rat option" where
  "py_float str_float (JNum x) = Some x"
| "py_float str_float (JBool b) = Some (if b then 1 else 0)"
| "py_float str_float (JStr s) = str_float s"
| "py_float str_float v = None"

text \<open>
  \<^verbatim>\<open>float(llm_conf.get(score_key)) if score_key in llm_conf else None\<close> inside
  \<^verbatim>\<open>try ... except Exception: llm_val = None\<close>. When \<^verbatim>\<open>llm_conf\<close> is not a dictionary,
  either the membership test raises (a number, a boolean), or it is false, or it is true
  and \<^verbatim>\<open>.get\<close> raises AttributeError (a string, a list): None in every case.
\<close>

fun llm_value :: "(string \<Rightarrow> rat option) \<Rightarrow> json \<Rightarrow> string \<Rightarrow> rat option" where
  "llm_value str_float (JDict d) score_key =
     (case map_of d score_key of
        None \<Rightarrow> None
      | Some v \<Rightarrow> py_float str_float v)"
| "llm_value str_float v score_key = None"

definition derive_step ::
  "(string \<Rightarrow> rat option) \<Rightarrow> pydict \<Rightarrow> json \<Rightarrow> string \<times> string \<Rightarrow>
     (string \<times> rat) list \<times> string list \<Rightarrow> (string \<times> rat) list \<times> string list" where
  "derive_step str_float extracted llm_conf kv acc =
     (case (kv, acc) of ((score_key, field_key), (scores, gaps)) \<Rightarrow>
        let val = py_get extracted field_key;
            derived = fst (derive_value val);
            gaps' = (if snd (derive_value val) then gaps @ [field_key] else gaps);
            llm_val = llm_value str_float llm_conf score_key;
            final_score = (case llm_val of None \<Rightarrow> derived | Some l \<Rightarrow> max derived l);
            final_score' = max 0 (min 1 final_score)
        in (AList.update score_key (py_round final_score' 3) scores, gaps'))"

definition derive_confidence_and_gaps ::
  "(string \<Rightarrow> rat option) \<Rightarrow> pydict \<Rightarrow> (string \<times> rat) list \<times> string list" where
  "derive_confidence_and_gaps str_float extracted =
     (let llm_conf = py_or (py_get extracted ''confidence_scores'') (JDict [])
      in fold (derive_step str_float extracted llm_conf) mapping ([], []))"


section \<open>The typed extraction model\<close>

record ExtractedContract =
  party_identification :: json
  account_information :: json
  financial_details :: json
  payment_structure :: json
  revenue_classification :: json
  service_level_agreements :: json
  confidence_scores :: json
  gaps :: json

text \<open>\<^verbatim>\<open>validated.dict()\<close>: every declared field, in declaration order.\<close>

definition model_dict :: "ExtractedContract \<Rightarrow> pydict" where
  "model_dict validated =
     [(''party_identification'', party_identification validated),
      (''account_information'', account_information validated),
      (''financial_details'', financial_details validated),
      (''payment_structure'', payment_structure validated),
      (''revenue_classification'', revenue_classification validated),
      (''service_level_agreements'', service_level_agreements validated),
      (''confidence_scores'', confidence_scores validated),
      (''gaps'', gaps validated)]"

text \<open>
  \<^verbatim>\<open>ExtractedContract(**combined)\<close> is run by the pydantic library. The general statements
  below take the constructor as a parameter (the field \<open>ctor\<close> of the collaborators), which
  returns the instance or raises.
  \<open>ExtractedContract_init\<close> is a concrete constructor for the declared schema, used at
  concrete documents: a category field accepts null (also when the key is missing) and a
  dictionary, \<^verbatim>\<open>confidence_scores\<close> (default \<^verbatim>\<open>{}\<close>) accepts null and a dictionary of
  numbers, \<^verbatim>\<open>gaps\<close> (default \<^verbatim>\<open>[]\<close>) accepts null and a list of strings, and unknown keys
  are dropped. Every other shape is a ValidationError; conversions that the library may
  apply to such shapes are not part of it.
\<close>

fun optional_dict :: "json option \<Rightarrow> py_exc + json" where
  "optional_dict None = Inr JNull"
| "optional_dict (Some JNull) = Inr JNull"
| "optional_dict (Some (JDict d)) = Inr (JDict d)"
| "optional_dict (Some v) = Inl (ValidationError ''value is not a valid dict'')"

fun is_number :: "json \<Rightarrow> bool" where
  "is_number (JNum x) = True"
| "is_number v = False"

fun is_string :: "json \<Rightarrow> bool" where
  "is_string (JStr s) = True"
| "is_string v = False"

fun optional_float_dict :: "json option \<Rightarrow> py_exc + json" where
  "optional_float_dict None = Inr (JDict [])"
| "optional_float_dict (Some JNull) = Inr JNull"
| "optional_float_dict (Some (JDict d)) =
     (if list_all is_number (map snd d) then Inr (JDict d)
      else Inl (ValidationError ''value is not a valid float''))"
| "optional_float_dict (Some v) = Inl (ValidationError ''value is not a valid dict'')"

fun optional_str_list :: "json option \<Rightarrow> py_exc + json" where
  "optional_str_list None = Inr (JList [])"
| "optional_str_list (Some JNull) = Inr JNull"
| "optional_str_list (Some (JList xs)) =
     (if list_all is_string xs then Inr (JList xs)
      else Inl (ValidationError ''str type expected''))"
| "optional_str_list (Some v) = Inl (ValidationError ''value is not a valid list'')"

definition ExtractedContract_init :: "pydict \<Rightarrow> py_exc + ExtractedContract" where
  "ExtractedContract_init combined =
     (case optional_dict (map_of combined ''party_identification'') of Inl e \<Rightarrow> Inl e | Inr f1 \<Rightarrow>
      case optional_dict (map_of combined ''account_information'') of Inl e \<Rightarrow> Inl e | Inr f2 \<Rightarrow>
      case optional_dict (map_of combined ''financial_details'') of Inl e \<Rightarrow> Inl e | Inr f3 \<Rightarrow>
      case optional_dict (map_of combined ''payment_structure'') of Inl e \<Rightarrow> Inl e | Inr f4 \<Rightarrow>
      case optional_dict (map_of combined ''revenue_classification'') of Inl e \<Rightarrow> Inl e | Inr f5 \<Rightarrow>
      case optional_dict (map_of combined ''service_level_agreements'') of Inl e \<Rightarrow> Inl e | Inr f6 \<Rightarrow>
      case optional_float_dict (map_of combined ''confidence_scores'') of Inl e \<Rightarrow> Inl e | Inr f7 \<Rightarrow>
      case optional_str_list (map_of combined ''gaps'') of Inl e \<Rightarrow> Inl e | Inr f8 \<Rightarrow>
        Inr \<lparr>party_identification = f1, account_information = f2, financial_details = f3,
             payment_structure = f4, revenue_classification = f5,
             service_level_agreements = f6, confidence_scores = f7, gaps = f8\<rparr>)"

section \<open>process\_contract\<close>

text \<open>
  The collaborators of a run: the PDF text extraction, the model call (it returns what
  \<^verbatim>\<open>json.loads\<close> produced, or raises), the constructor of the typed model and the parser
  behind \<^verbatim>\<open>float\<close> of a string.
\<close>

record collaborators =
  extract_text_from_pdf :: "string \<Rightarrow> py_exc + string"
  call_groq :: "string \<Rightarrow> string \<Rightarrow> py_exc + json"
  ctor :: "pydict \<Rightarrow> py_exc + ExtractedContract"
  str_float :: "string \<Rightarrow> rat option"

definition fields1 :: string where
  "fields1 = ''party_identification, account_information, financial_details''"

definition fields2 :: string where
  "fields2 = ''payment_structure, revenue_classification, service_level_agreements''"

text \<open>\<^verbatim>\<open>combined = {**extracted1, **extracted2}\<close>: unpacking a value that is no mapping raises.\<close>

fun as_mapping :: "json \<Rightarrow> py_exc + pydict" where
  "as_mapping (JDict d) = Inr d"
| "as_mapping v = Inl (TypeError ''object is not a mapping'')"

definition merge_results :: "json \<Rightarrow> json \<Rightarrow> py_exc + pydict" where
  "merge_results extracted1 extracted2 =
     (case as_mapping extracted1 of
        Inl e \<Rightarrow> Inl e
      | Inr d1 \<Rightarrow>
          (case as_mapping extracted2 of
             Inl e \<Rightarrow> Inl e
           | Inr d2 \<Rightarrow> Inr (dict_merge d1 d2)))"

text \<open>
  The inner \<^verbatim>\<open>try\<close>: only \<^verbatim>\<open>ValidationError\<close> is caught there, any other exception
  leaves it.
\<close>

definition validate_step ::
  "(pydict \<Rightarrow> py_exc + ExtractedContract) \<Rightarrow> pydict \<Rightarrow> py_exc + pydict" where
  "validate_step validate combined =
     (case validate combined of
        Inr validated \<Rightarrow> Inr (model_dict validated)
      | Inl (ValidationError ve) \<Rightarrow> Inr combined
      | Inl e \<Rightarrow> Inl e)"

text \<open>The merge and the validation together: the value of \<^verbatim>\<open>extracted\<close> after the inner \<^verbatim>\<open>try\<close>.\<close>

definition merge_and_validate ::
  "(pydict \<Rightarrow> py_exc + ExtractedContract) \<Rightarrow> json \<Rightarrow> json \<Rightarrow> py_exc + pydict" where
  "merge_and_validate validate extracted1 extracted2 =
     (case merge_results extracted1 extracted2 of
        Inl e \<Rightarrow> Inl e
      | Inr combined \<Rightarrow> validate_step validate combined)"

text \<open>
  The six category keys, as \<^verbatim>\<open>get_contract_data\<close> lists them, and whether a document has
  all of them.
\<close>

definition category_keys :: "string list" where
  "category_keys =
     [''party_identification'', ''account_information'', ''financial_details'',
      ''payment_structure'', ''revenue_classification'', ''service_level_agreements'']"

definition has_category_keys :: "pydict \<Rightarrow> bool" where
  "has_category_keys d = list_all (\<lambda>k. k \<in> fst ` set d) category_keys"

text \<open>
  From \<^verbatim>\<open>derive_confidence_and_gaps(extracted)\<close> to \<^verbatim>\<open>extracted["score"] = score\<close>.
\<close>

definition gaps_json :: "string list \<Rightarrow> json" where
  "gaps_json gs = JList (map JStr gs)"

definition finalize :: "(string \<Rightarrow> rat option) \<Rightarrow> pydict \<Rightarrow> py_exc + pydict" where
  "finalize sf extracted =
     (let derived_scores = fst (derive_confidence_and_gaps sf extracted);
          derived_gaps = snd (derive_confidence_and_gaps sf extracted)
      in case as_mapping (py_or (py_get extracted ''confidence_scores'') (JDict [])) of
           Inl e \<Rightarrow> Inl e
         | Inr present \<Rightarrow>
             let merged_conf = dict_merge (float_dict derived_scores) present;
                 extracted1 = AList.update ''confidence_scores'' (JDict merged_conf) extracted;
                 extracted2 = AList.update ''gaps''
                    (py_or (gaps_json derived_gaps) (py_get_default extracted1 ''gaps'' (JList [])))
                    extracted1
             in (case compute_contract_score merged_conf of
                   Inl e \<Rightarrow> Inl e
                 | Inr score \<Rightarrow> Inr (AList.update ''score'' (JNum score) extracted2)))"

text \<open>The body of the outer \<^verbatim>\<open>try\<close> after the text extraction.\<close>

definition extract_and_score :: "collaborators \<Rightarrow> string \<Rightarrow> py_exc + pydict" where
  "extract_and_score env contract_text =
     (case call_groq env contract_text fields1 of
        Inl e \<Rightarrow> Inl e
      | Inr extracted1 \<Rightarrow>
     (case call_groq env contract_text fields2 of
        Inl e \<Rightarrow> Inl e
      | Inr extracted2 \<Rightarrow>
     (case merge_and_validate (ctor env) extracted1 extracted2 of
        Inl e \<Rightarrow> Inl e
      | Inr extracted \<Rightarrow> finalize (str_float env) extracted)))"

text \<open>The record kept in \<^verbatim>\<open>CONTRACTS\<close> for one contract.\<close>

record job =
  status :: string
  progress :: int
  data :: "pydict option"
  error :: "string option"
  created_at :: string

definition job_failed :: "py_exc \<Rightarrow> job \<Rightarrow> job" where
  "job_failed e j = j\<lparr>status := ''failed'', error := Some (exc_str e), progress := 100\<rparr>"

definition job_completed :: "pydict \<Rightarrow> job \<Rightarrow> job" where
  "job_completed extracted j = j\<lparr>data := Some extracted, status := ''completed'', progress := 100\<rparr>"

text \<open>
  The run of \<^verbatim>\<open>process_contract\<close> on a job record, as the list of the records it leaves
  behind: each element is the record after one block of assignments, the blocks being
  separated by the calls to the collaborators. Nothing can observe the record inside a
  block, since the coroutine yields only at an \<^verbatim>\<open>await\<close>.
\<close>

definition process_contract_trace :: "collaborators \<Rightarrow> string \<Rightarrow> job \<Rightarrow> job list" where
  "process_contract_trace env file_path j =
     (let j1 = j\<lparr>status := ''processing'', progress := 10\<rparr>
      in case extract_text_from_pdf env file_path of
           Inl e \<Rightarrow> [j1, job_failed e j1]
         | Inr contract_text \<Rightarrow>
             let j2 = j1\<lparr>progress := 40\<rparr>
             in (case extract_and_score env contract_text of
                   Inl e \<Rightarrow> [j1, j2, job_failed e j2]
                 | Inr extracted \<Rightarrow> [j1, j2, job_completed extracted j2]))"

definition process_contract :: "collaborators \<Rightarrow> string \<Rightarrow> job \<Rightarrow> job" where
  "process_contract env file_path j = last (process_contract_trace env file_path j)"

text \<open>The exception that reaches the outer \<^verbatim>\<open>except Exception\<close>, if any.\<close>

definition raised :: "collaborators \<Rightarrow> string \<Rightarrow> py_exc option" where
  "raised env file_path =
     (case extract_text_from_pdf env file_path of
        Inl e \<Rightarrow> Some e
      | Inr contract_text \<Rightarrow>
          (case extract_and_score env contract_text of
             Inl e \<Rightarrow> Some e
           | Inr extracted \<Rightarrow> None))"

text \<open>
  The invariants of a job record: \<^verbatim>\<open>data\<close> is set exactly in the state completed and
  \<^verbatim>\<open>error\<close> exactly in the state failed; and the steps a record may take: the status
  moves from pending to processing and from processing to completed or failed (or stays
  processing), and the progress does not decrease.
\<close>

definition job_invariant :: "job \<Rightarrow> bool" where
  "job_invariant j =
     (((data j \<noteq> None) = (status j = ''completed''))
      \<and> ((error j \<noteq> None) = (status j = ''failed'')))"

definition step_ok :: "job \<Rightarrow> job \<Rightarrow> bool" where
  "step_ok j j' =
     ((status j, status j') \<in> set [(''pending'', ''processing''), (''processing'', ''processing''),
                                   (''processing'', ''completed''), (''processing'', ''failed'')]
      \<and> progress j \<le> progress j')"

text \<open>
  The collaborators of \<^verbatim>\<open>test_process_contract_flow_and_get_data\<close> in
  \<^verbatim>\<open>backend/tests/test_main.py\<close>: the text extraction returns a fixed text and the model
  call returns one of two payloads, by whether the field list names
  \<^verbatim>\<open>party_identification\<close>. The typed model is \<open>ExtractedContract_init\<close>; no string is
  converted to a float in that run.
\<close>

fun contains :: "string \<Rightarrow> string \<Rightarrow> bool" where
  "contains [] sub = (sub = [])"
| "contains (c # s) sub = (take (length sub) (c # s) = sub \<or> contains s sub)"

definition fake_call_groq :: "string \<Rightarrow> string \<Rightarrow> py_exc + json" where
  "fake_call_groq contract_text field_list =
     (if contains field_list ''party_identification''
      then Inr (JDict
        [(''party_identification'', JDict [(''name'', JStr ''ACME Corp'')]),
         (''account_information'', JDict [(''billing'', JStr ''123 Main St'')]),
         (''financial_details'', JDict [(''total'', JNum 1000)]),
         (''confidence_scores'', JDict [(''financial_completeness'', JNum (8 / 10))])])
      else Inr (JDict
        [(''payment_structure'', JDict [(''terms'', JStr ''Net 30'')]),
         (''revenue_classification'', JDict [(''type'', JStr ''recurring'')]),
         (''service_level_agreements'', JDict [(''uptime'', JStr ''99.9'')])]))"

definition test_collaborators :: collaborators where
  "test_collaborators =
     \<lparr>extract_text_from_pdf = (\<lambda>p. Inr ''fake text''),
      call_groq = fake_call_groq,
      ctor = ExtractedContract_init,
      str_float = (\<lambda>s. None)\<rparr>"

section \<open>upload\_contract\<close>

record server =
  CONTRACTS :: "string \<rightharpoonup> job"
  CONTRACT_FILES :: "string \<rightharpoonup> string"
  background_tasks :: "(string \<times> string) list"

datatype http_exc = HTTPException nat string

definition UPLOAD_DIR :: string where
  "UPLOAD_DIR = ''uploaded_contracts''"

text \<open>\<^verbatim>\<open>str.lower()\<close> on the ASCII letters; the other bytes are unchanged.\<close>

definition lower_char :: "char \<Rightarrow> char" where
  "lower_char c =
     (case map_of (zip ''ABCDEFGHIJKLMNOPQRSTUVWXYZ'' ''abcdefghijklmnopqrstuvwxyz'') c of
        None \<Rightarrow> c
      | Some l \<Rightarrow> l)"

definition lower :: "string \<Rightarrow> string" where
  "lower s = map lower_char s"

definition endswith :: "string \<Rightarrow> string \<Rightarrow> bool" where
  "endswith s suffix =
     (length suffix \<le> length s \<and> drop (length s - length suffix) s = suffix)"

definition new_job :: job where
  "new_job = \<lparr>status = ''pending'', progress = 0, data = None, error = None,
              created_at = ''2025-09-07T00:00:00Z''\<rparr>"

text \<open>
  The endpoint, for a request with the given file name; \<open>contract_id\<close> is the string that
  \<^verbatim>\<open>str(uuid.uuid4())\<close> returns. The result is the response (or the HTTP error raised)
  with the registries after the request. The copy of the upload to disk is taken to succeed.
\<close>

definition upload_contract ::
  "server \<Rightarrow> string \<Rightarrow> string \<Rightarrow> (http_exc + pydict) \<times> server" where
  "upload_contract s filename contract_id =
     (if \<not> endswith (lower filename) ''.pdf''
      then (Inl (HTTPException 400 ''Only PDF files are supported.''), s)
      else let file_path = UPLOAD_DIR @ ''/'' @ contract_id @ ''.pdf''
           in (Inr [(''contract_id'', JStr contract_id)],
               s\<lparr>CONTRACTS := (CONTRACTS s)(contract_id \<mapsto> new_job),
                  CONTRACT_FILES := (CONTRACT_FILES s)(contract_id \<mapsto> file_path),
                  background_tasks := background_tasks s @ [(contract_id, file_path)]\<rparr>))"

section \<open>Rounding\<close>

lemma floor_rat_numeral_div [simp]:
  "\<lfloor>numeral a / numeral b :: rat\<rfloor> = numeral a div numeral b"
  using floor_divide_of_int_eq [of "numeral a" "numeral b", where ?'a = rat] by simp

lemma floor_rat_one_div [simp]:
  "\<lfloor>1 / numeral b :: rat\<rfloor> = 1 div numeral b"
  using floor_divide_of_int_eq [of 1 "numeral b", where ?'a = rat] by simp






section \<open>The contract score\<close>







section \<open>The derivation\<close>


lemma update_fresh: "k \<notin> fst ` set al \<Longrightarrow> AList.update k v al = al @ [(k, v)]"
  by (induction al) auto

lemma fold_derive_step:
  "distinct (map fst kvs) \<Longrightarrow> fst ` set kvs \<inter> fst ` set scores = {} \<Longrightarrow>
   fold (derive_step sf extracted llm_conf) kvs (scores, gs) =
     (scores @ map (\<lambda>(c, f). (c, py_round (max 0 (min 1
          (case llm_value sf llm_conf c of
             None \<Rightarrow> fst (derive_value (py_get extracted f))
           | Some l \<Rightarrow> max (fst (derive_value (py_get extracted f))) l))) 3)) kvs,
      gs @ map snd (filter (\<lambda>(c, f). snd (derive_value (py_get extracted f))) kvs))"
proof (induction kvs arbitrary: scores gs)
  case Nil
  then show ?case by simp
next
  case (Cons kv kvs)
  obtain c f where kv: "kv = (c, f)" by (cases kv)
  from Cons.prems have fresh: "c \<notin> fst ` set scores" by (auto simp: kv)
  let ?r = "py_round (max 0 (min 1
          (case llm_value sf llm_conf c of
             None \<Rightarrow> fst (derive_value (py_get extracted f))
           | Some l \<Rightarrow> max (fst (derive_value (py_get extracted f))) l))) 3"
  let ?gs = "if snd (derive_value (py_get extracted f)) then gs @ [f] else gs"
  have step: "derive_step sf extracted llm_conf kv (scores, gs) = (scores @ [(c, ?r)], ?gs)"
    by (simp add: derive_step_def kv Let_def update_fresh [OF fresh])
  have d: "distinct (map fst kvs)" using Cons.prems(1) by simp
  have i: "fst ` set kvs \<inter> fst ` set (scores @ [(c, ?r)]) = {}"
    using Cons.prems by (auto simp: kv)
  have "fold (derive_step sf extracted llm_conf) (kv # kvs) (scores, gs) =
          fold (derive_step sf extracted llm_conf) kvs (scores @ [(c, ?r)], ?gs)"
    by (simp only: fold_simps step)
  also note Cons.IH [OF d i, of ?gs]
  finally show ?case by (simp add: kv)
qed

lemma derive_explicit:
  "derive_confidence_and_gaps sf extracted =
     (map (\<lambda>(c, f). (c, py_round (max 0 (min 1
          (case llm_value sf (py_or (py_get extracted ''confidence_scores'') (JDict [])) c of
             None \<Rightarrow> fst (derive_value (py_get extracted f))
           | Some l \<Rightarrow> max (fst (derive_value (py_get extracted f))) l))) 3)) mapping,
      map snd (filter (\<lambda>(c, f). snd (derive_value (py_get extracted f))) mapping))"
proof -
  have "distinct (map fst mapping)" by (simp add: mapping_def)
  then show ?thesis
    using fold_derive_step [of mapping "[]" sf extracted _ "[]"]
    by (simp add: derive_confidence_and_gaps_def Let_def)
qed











lemma derive_cong:
  assumes "\<And>k. k \<in> set (''confidence_scores'' # map snd mapping) \<Longrightarrow> map_of d1 k = map_of d2 k"
  shows "derive_confidence_and_gaps sf d1 = derive_confidence_and_gaps sf d2"
proof -
  have g: "py_get d1 k = py_get d2 k" if "k \<in> set (''confidence_scores'' # map snd mapping)" for k
    using assms [OF that] by (simp add: py_get_def)
  have c: "py_get d1 ''confidence_scores'' = py_get d2 ''confidence_scores''"
    by (rule g) simp
  have f: "py_get d1 f = py_get d2 f" if "(c, f) \<in> set mapping" for c f
    by (rule g) (use that in force)
  show ?thesis
    unfolding derive_explicit c
    by (intro conjI arg_cong2 [where f = Pair] map_cong filter_cong arg_cong [where f = "map snd"])
       (auto dest: f split: option.splits)
qed

lemma score_loop_cong:
  "(\<And>k. k \<in> set (map fst ws) \<Longrightarrow> map_of cs1 k = map_of cs2 k) \<Longrightarrow>
     score_loop cs1 ws s = score_loop cs2 ws s"
proof (induction ws arbitrary: s)
  case Nil
  then show ?case by simp
next
  case (Cons w ws)
  obtain key weight where w: "w = (key, weight)" by (cases w)
  have "map_of cs1 key = map_of cs2 key" using Cons.prems by (simp add: w)
  then have g: "py_get_default cs1 key (JNum 0) = py_get_default cs2 key (JNum 0)"
    by (simp add: py_get_default_def)
  have "score_loop cs1 ws t = score_loop cs2 ws t" for t
    by (rule Cons.IH) (simp add: Cons.prems)
  then show ?case by (simp add: w g split: sum.splits)
qed

lemma compute_cong:
  assumes "\<And>k. k \<in> set (map fst weights) \<Longrightarrow> map_of cs1 k = map_of cs2 k"
  shows "compute_contract_score cs1 = compute_contract_score cs2"
  using score_loop_cong [of weights cs1 cs2 0] assms
  by (simp add: compute_contract_score_def)

text \<open>
  Claim C10. Two documents that agree on every key but \<^verbatim>\<open>revenue_classification\<close> get the
  same scores and the same gaps, hence the same contract score; that key is never among the
  gaps; and the contract score of a confidence mapping does not depend on an entry of that
  name.
\<close>

theorem revenue_classification_no_influence:
  "(map_of (AList.delete ''revenue_classification'' d1) =
      map_of (AList.delete ''revenue_classification'' d2) \<longrightarrow>
        derive_confidence_and_gaps sf d1 = derive_confidence_and_gaps sf d2
      \<and> compute_contract_score (float_dict (fst (derive_confidence_and_gaps sf d1))) =
          compute_contract_score (float_dict (fst (derive_confidence_and_gaps sf d2))))
   \<and> ''revenue_classification'' \<notin> set (snd (derive_confidence_and_gaps sf d))
   \<and> (map_of (AList.delete ''revenue_classification'' cs1) =
        map_of (AList.delete ''revenue_classification'' cs2) \<longrightarrow>
          compute_contract_score cs1 = compute_contract_score cs2)"
proof (intro conjI impI)
  assume h: "map_of (AList.delete ''revenue_classification'' d1) =
      map_of (AList.delete ''revenue_classification'' d2)"
  have e: "map_of d1 k = map_of d2 k" if "k \<noteq> ''revenue_classification''" for k
    using fun_cong [OF h, of k] that by (simp add: delete_conv)
  show eq: "derive_confidence_and_gaps sf d1 = derive_confidence_and_gaps sf d2"
    by (rule derive_cong, rule e) (auto simp: mapping_def)
  show "compute_contract_score (float_dict (fst (derive_confidence_and_gaps sf d1))) =
          compute_contract_score (float_dict (fst (derive_confidence_and_gaps sf d2)))"
    by (simp only: eq)
next
  have "set (snd (derive_confidence_and_gaps sf d)) \<subseteq> set (map snd mapping)"
    by (auto simp: derive_explicit)
  then show "''revenue_classification'' \<notin> set (snd (derive_confidence_and_gaps sf d))"
    by (auto simp: mapping_def)
next
  assume h: "map_of (AList.delete ''revenue_classification'' cs1) =
        map_of (AList.delete ''revenue_classification'' cs2)"
  have e: "map_of cs1 k = map_of cs2 k" if "k \<noteq> ''revenue_classification''" for k
    using fun_cong [OF h, of k] that by (simp add: delete_conv)
  show "compute_contract_score cs1 = compute_contract_score cs2"
    by (rule compute_cong, rule e) (auto simp: weights_def)
qed

text \<open>
  C10 at two documents that differ in \<^verbatim>\<open>revenue_classification\<close> only, and at two
  confidence mappings that differ in an entry of that name only.
\<close>

theorem revenue_classification_no_influence_witness:
  "map_of (AList.delete ''revenue_classification''
       [(''payment_structure'', JStr ''Net 30''), (''revenue_classification'', JStr ''recurring'')]) =
   map_of (AList.delete ''revenue_classification''
       [(''payment_structure'', JStr ''Net 30''), (''revenue_classification'', JNull)])
   \<and> derive_confidence_and_gaps (\<lambda>s. None)
       [(''payment_structure'', JStr ''Net 30''), (''revenue_classification'', JStr ''recurring'')] =
     derive_confidence_and_gaps (\<lambda>s. None)
       [(''payment_structure'', JStr ''Net 30''), (''revenue_classification'', JNull)]
   \<and> map_of (AList.delete ''revenue_classification''
       [(''party_identification'', JNum 1), (''revenue_classification'', JNum 1)]) =
     map_of (AList.delete ''revenue_classification'' [(''party_identification'', JNum 1)])
   \<and> compute_contract_score [(''party_identification'', JNum 1), (''revenue_classification'', JNum 1)] =
     compute_contract_score [(''party_identification'', JNum 1)]"
proof -
  let ?d1 = "[(''payment_structure'', JStr ''Net 30''), (''revenue_classification'', JStr ''recurring'')]"
  let ?d2 = "[(''payment_structure'', JStr ''Net 30''), (''revenue_classification'', JNull)]"
  let ?c1 = "[(''party_identification'', JNum 1), (''revenue_classification'', JNum 1)]"
  let ?c2 = "[(''party_identification'', JNum 1)]"
  have a: "map_of (AList.delete ''revenue_classification'' ?d1) =
           map_of (AList.delete ''revenue_classification'' ?d2)"
    by (simp add: AList.delete_eq)
  have b: "map_of (AList.delete ''revenue_classification'' ?c1) =
           map_of (AList.delete ''revenue_classification'' ?c2)"
    by (simp add: AList.delete_eq)
  from revenue_classification_no_influence [of ?d1 ?d2 "\<lambda>s. None" "[]" ?c1 ?c2] a b
  have "derive_confidence_and_gaps (\<lambda>s. None) ?d1 = derive_confidence_and_gaps (\<lambda>s. None) ?d2"
    and "compute_contract_score ?c1 = compute_contract_score ?c2"
    by blast+
  with a b show ?thesis by blast
qed

section \<open>Merge and validation\<close>

lemma map_of_dict_merge:
  "distinct (map fst b) \<Longrightarrow> map_of (dict_merge a b) = map_of a ++ map_of b"
proof (induction b arbitrary: a)
  case Nil
  then show ?case by (simp add: dict_merge_def)
next
  case (Cons kv b)
  obtain k v where kv: "kv = (k, v)" by (cases kv)
  from Cons.prems have d: "distinct (map fst b)" and n: "map_of b k = None"
    by (auto simp: kv map_of_eq_None_iff)
  have "dict_merge a (kv # b) = dict_merge (AList.update k v a) b"
    by (simp add: dict_merge_def kv)
  then have "map_of (dict_merge a (kv # b)) = map_of (AList.update k v a) ++ map_of b"
    by (simp only: Cons.IH [OF d])
  also have "map_of (AList.update k v a) = (map_of a)(k \<mapsto> v)"
    by (rule update_conv')
  also have "(map_of a)(k \<mapsto> v) ++ map_of b = map_of a ++ map_of (kv # b)"
    using n by (auto simp: kv map_add_def fun_eq_iff split: option.splits)
  finally show ?case .
qed

lemma finalize_Inr:
  assumes "finalize sf extracted = Inr final"
  shows "\<exists>present score.
           as_mapping (py_or (py_get extracted ''confidence_scores'') (JDict [])) = Inr present
         \<and> compute_contract_score
              (dict_merge (float_dict (fst (derive_confidence_and_gaps sf extracted))) present)
             = Inr score
         \<and> final = AList.update ''score'' (JNum score)
             (AList.update ''gaps''
                (py_or (gaps_json (snd (derive_confidence_and_gaps sf extracted)))
                       (py_get_default extracted ''gaps'' (JList [])))
                (AList.update ''confidence_scores''
                   (JDict (dict_merge (float_dict (fst (derive_confidence_and_gaps sf extracted)))
                                      present))
                   extracted))"
  using assms
  by (auto simp: finalize_def Let_def py_get_default_def update_conv' split: sum.splits)

text \<open>
  Claim C4. For two group results that are dictionaries the merge is their union, an entry
  of the second group replacing the first group's entry of the same key. When the rest of
  the pipeline returns a document, its \<^verbatim>\<open>confidence_scores\<close> are the derived scores
  overridden, key by key, by the entries the merged document already had, and its
  \<^verbatim>\<open>gaps\<close> are the derived gaps when there are any, otherwise the \<^verbatim>\<open>gaps\<close> value the
  merged document already had, and the empty list when it had none. Dictionaries hold each
  key once.
\<close>

theorem merge_policy_precedence:
  "(distinct (map fst e2) \<longrightarrow>
      (\<exists>combined. merge_results (JDict e1) (JDict e2) = Inr combined
                  \<and> map_of combined = map_of e1 ++ map_of e2))
   \<and> (finalize sf extracted = Inr final
        \<and> py_or (py_get extracted ''confidence_scores'') (JDict []) = JDict present
        \<and> distinct (map fst present) \<longrightarrow>
        (\<exists>merged. map_of final ''confidence_scores'' = Some (JDict merged)
           \<and> map_of merged =
               map_of (float_dict (fst (derive_confidence_and_gaps sf extracted)))
                 ++ map_of present)
        \<and> map_of final ''gaps'' =
            Some (if snd (derive_confidence_and_gaps sf extracted) \<noteq> []
                  then gaps_json (snd (derive_confidence_and_gaps sf extracted))
                  else (case map_of extracted ''gaps'' of None \<Rightarrow> JList [] | Some g \<Rightarrow> g)))"
proof (intro conjI impI)
  assume "distinct (map fst e2)"
  then show "\<exists>combined. merge_results (JDict e1) (JDict e2) = Inr combined
                  \<and> map_of combined = map_of e1 ++ map_of e2"
    by (simp add: merge_results_def map_of_dict_merge)
next
  assume h: "finalize sf extracted = Inr final
        \<and> py_or (py_get extracted ''confidence_scores'') (JDict []) = JDict present
        \<and> distinct (map fst present)"
  let ?ds = "fst (derive_confidence_and_gaps sf extracted)"
  let ?dg = "snd (derive_confidence_and_gaps sf extracted)"
  from h finalize_Inr [of sf extracted final] obtain score where
    f: "final = AList.update ''score'' (JNum score)
             (AList.update ''gaps''
                (py_or (gaps_json ?dg) (py_get_default extracted ''gaps'' (JList [])))
                (AList.update ''confidence_scores''
                   (JDict (dict_merge (float_dict ?ds) present)) extracted))"
    by auto
  have "map_of final ''confidence_scores'' = Some (JDict (dict_merge (float_dict ?ds) present))"
    by (simp add: f update_conv')
  moreover have "map_of (dict_merge (float_dict ?ds) present) = map_of (float_dict ?ds) ++ map_of present"
    using h by (simp add: map_of_dict_merge)
  ultimately show "\<exists>merged. map_of final ''confidence_scores'' = Some (JDict merged)
           \<and> map_of merged = map_of (float_dict ?ds) ++ map_of present"
    by blast
  show "map_of final ''gaps'' =
            Some (if ?dg \<noteq> [] then gaps_json ?dg
                  else (case map_of extracted ''gaps'' of None \<Rightarrow> JList [] | Some g \<Rightarrow> g))"
    by (simp add: f update_conv' py_or_def gaps_json_def py_get_default_def)
qed

lemma py_round_values:
  "py_round 0 3 = 0" "py_round 1 3 = 1" "py_round (9 / 10) 3 = 9 / 10"
  "py_round 12 2 = 12" "py_round 94 2 = 94"
  by (simp_all add: py_round_def round_half_even_def Let_def)

lemma strip_Net_30: "strip ''Net 30'' \<noteq> []"
  by (simp add: strip_def is_space_def)

lemma finalize_net30:
  "finalize (\<lambda>s. None)
     [(''payment_structure'', JStr ''Net 30''),
      (''confidence_scores'', JDict [(''payment_terms_clarity'', JNum (6 / 10))])] =
   Inr [(''payment_structure'', JStr ''Net 30''),
      (''confidence_scores'',
       JDict
        [(''financial_completeness'', JNum 0),
         (''party_identification'', JNum 0),
         (''payment_terms_clarity'', JNum (6 / 10)),
         (''sla_definition'', JNum 0), (''contact_information'', JNum 0)]),
      (''gaps'',
       JList
        [JStr ''financial_details'', JStr ''party_identification'',
         JStr ''service_level_agreements'', JStr ''account_information'']),
      (''score'', JNum 12)]"
  by (simp add: finalize_def derive_explicit mapping_def py_get_def py_or_def py_round_values
      strip_Net_30 float_dict_def dict_merge_def gaps_json_def py_get_default_def
      compute_contract_score_def weights_def Let_def)


text \<open>
  C4 at two group results that both carry \<^verbatim>\<open>gaps\<close>, and at a document whose own 0.6 for
  \<^verbatim>\<open>payment_terms_clarity\<close> replaces the derived 0.9.
\<close>

theorem merge_policy_precedence_witness:
  "distinct (map fst [(''payment_structure'', JStr ''Net 30''), (''gaps'', JNull)])
   \<and> (\<exists>combined.
         merge_results (JDict [(''party_identification'', JStr ''Acme Corp''), (''gaps'', JList [])])
                       (JDict [(''payment_structure'', JStr ''Net 30''), (''gaps'', JNull)])
           = Inr combined
         \<and> map_of combined ''gaps'' = Some JNull
         \<and> map_of combined ''party_identification'' = Some (JStr ''Acme Corp''))
   \<and> distinct (map fst [(''payment_terms_clarity'', JNum (6 / 10))])
   \<and> (\<exists>final merged.
         finalize (\<lambda>s. None)
           [(''payment_structure'', JStr ''Net 30''),
            (''confidence_scores'', JDict [(''payment_terms_clarity'', JNum (6 / 10))])] = Inr final
         \<and> map_of final ''confidence_scores'' = Some (JDict merged)
         \<and> map_of merged ''payment_terms_clarity'' = Some (JNum (6 / 10))
         \<and> map_of merged ''sla_definition'' = Some (JNum 0)
         \<and> map_of final ''gaps'' =
             Some (JList [JStr ''financial_details'', JStr ''party_identification'',
                          JStr ''service_level_agreements'', JStr ''account_information'']))"
proof -
  let ?e1 = "[(''party_identification'', JStr ''Acme Corp''), (''gaps'', JList [])]"
  let ?e2 = "[(''payment_structure'', JStr ''Net 30''), (''gaps'', JNull)]"
  let ?x = "[(''payment_structure'', JStr ''Net 30''),
            (''confidence_scores'', JDict [(''payment_terms_clarity'', JNum (6 / 10))])]"
  let ?p = "[(''payment_terms_clarity'', JNum (6 / 10))]"
  let ?f = "[(''payment_structure'', JStr ''Net 30''),
      (''confidence_scores'',
       JDict
        [(''financial_completeness'', JNum 0),
         (''party_identification'', JNum 0),
         (''payment_terms_clarity'', JNum (6 / 10)),
         (''sla_definition'', JNum 0), (''contact_information'', JNum 0)]),
      (''gaps'',
       JList
        [JStr ''financial_details'', JStr ''party_identification'',
         JStr ''service_level_agreements'', JStr ''account_information'']),
      (''score'', JNum 12)]"
  have d2: "distinct (map fst ?e2)" by simp
  have dp: "distinct (map fst ?p)" by simp
  have fin: "finalize (\<lambda>s. None) ?x = Inr ?f" by (rule finalize_net30)
  have pre: "py_or (py_get ?x ''confidence_scores'') (JDict []) = JDict ?p"
    by (simp add: py_get_def py_or_def)
  have ds: "derive_confidence_and_gaps (\<lambda>s. None) ?x =
     ([(''financial_completeness'', 0), (''party_identification'', 0),
       (''payment_terms_clarity'', 9 / 10), (''sla_definition'', 0),
       (''contact_information'', 0)],
      [''financial_details'', ''party_identification'',
       ''service_level_agreements'', ''account_information''])"
    by (simp add: derive_explicit mapping_def py_get_def py_or_def py_round_values strip_Net_30)
  note t = merge_policy_precedence [of ?e2 ?e1 "\<lambda>s. None" ?x ?f ?p]
  from t d2 obtain combined where
    c: "merge_results (JDict ?e1) (JDict ?e2) = Inr combined"
       "map_of combined = map_of ?e1 ++ map_of ?e2"
    by blast
  from t fin pre dp obtain merged where
    m: "map_of ?f ''confidence_scores'' = Some (JDict merged)"
       "map_of merged =
          map_of (float_dict (fst (derive_confidence_and_gaps (\<lambda>s. None) ?x))) ++ map_of ?p"
    and g: "map_of ?f ''gaps'' =
            Some (if snd (derive_confidence_and_gaps (\<lambda>s. None) ?x) \<noteq> []
                  then gaps_json (snd (derive_confidence_and_gaps (\<lambda>s. None) ?x))
                  else (case map_of ?x ''gaps'' of None \<Rightarrow> JList [] | Some g \<Rightarrow> g))"
    by blast
  have c1: "map_of combined ''gaps'' = Some JNull"
    and c2: "map_of combined ''party_identification'' = Some (JStr ''Acme Corp'')"
    by (simp_all add: c(2))
  have m1: "map_of merged ''payment_terms_clarity'' = Some (JNum (6 / 10))"
    and m2: "map_of merged ''sla_definition'' = Some (JNum 0)"
    using ds by (simp_all add: m(2) float_dict_def)
  have g': "map_of ?f ''gaps'' =
             Some (JList [JStr ''financial_details'', JStr ''party_identification'',
                          JStr ''service_level_agreements'', JStr ''account_information''])"
    by simp
  show ?thesis
    using d2 dp c(1) c1 c2 fin m(1) m1 m2 g' by blast
qed

section \<open>Validation\<close>




lemma keys_dict_merge: "fst ` set (dict_merge a b) = fst ` set a \<union> fst ` set b"
proof (induction b arbitrary: a)
  case Nil
  then show ?case by (simp add: dict_merge_def)
next
  case (Cons kv b)
  obtain k v where kv: "kv = (k, v)" by (cases kv)
  have "dict_merge a (kv # b) = dict_merge (AList.update k v a) b"
    by (simp add: dict_merge_def kv)
  then show ?case using Cons.IH [of "AList.update k v a"] by (auto simp: kv dom_update)
qed

lemma has_category_keys_model_dict: "has_category_keys (model_dict validated)"
  by (simp add: has_category_keys_def model_dict_def category_keys_def)

text \<open>
  Claim C6 as stated fails: when the first group reports the confidence "high" for
  \<^verbatim>\<open>party_identification\<close>, the validation fails, the raw union is used, and four of the six
  category keys are missing.
\<close>

theorem category_keys_missing_after_fallback:
  "merge_and_validate ExtractedContract_init
      (JDict [(''party_identification'', JDict [(''name'', JStr ''ACME Corp'')]),
              (''confidence_scores'', JDict [(''party_identification'', JStr ''high'')])])
      (JDict [(''payment_structure'', JDict [(''terms'', JStr ''Net 30'')])]) =
     Inr [(''party_identification'', JDict [(''name'', JStr ''ACME Corp'')]),
          (''confidence_scores'', JDict [(''party_identification'', JStr ''high'')]),
          (''payment_structure'', JDict [(''terms'', JStr ''Net 30'')])]
   \<and> \<not> has_category_keys
        [(''party_identification'', JDict [(''name'', JStr ''ACME Corp'')]),
         (''confidence_scores'', JDict [(''party_identification'', JStr ''high'')]),
         (''payment_structure'', JDict [(''terms'', JStr ''Net 30'')])]"
  by (simp add: merge_and_validate_def merge_results_def dict_merge_def validate_step_def
      ExtractedContract_init_def has_category_keys_def category_keys_def)

text \<open>
  Claim C6, amended. When the union of the two group results passes the validation, the
  resulting document has all six category keys. When the validation raises a
  ValidationError the document is the raw union, and it has all six keys exactly when each
  of them is a key of one of the two group results.
\<close>

theorem category_keys_after_validation:
  "(validate (dict_merge d1 d2) = Inr validated \<longrightarrow>
      merge_and_validate validate (JDict d1) (JDict d2) = Inr (model_dict validated)
      \<and> has_category_keys (model_dict validated))
   \<and> (validate (dict_merge d1 d2) = Inl (ValidationError ve) \<longrightarrow>
      merge_and_validate validate (JDict d1) (JDict d2) = Inr (dict_merge d1 d2)
      \<and> has_category_keys (dict_merge d1 d2) =
          list_all (\<lambda>k. k \<in> fst ` set d1 \<union> fst ` set d2) category_keys)"
  by (simp add: merge_and_validate_def merge_results_def validate_step_def
      has_category_keys_model_dict)
     (simp add: has_category_keys_def keys_dict_merge)


text \<open>
  The amended C6 at a union that validates, where \<^verbatim>\<open>account_information\<close> appears with
  the value null, and at the union of the counterexample.
\<close>

theorem category_keys_after_validation_witness:
  "ExtractedContract_init
      (dict_merge [(''party_identification'', JDict [(''name'', JStr ''ACME Corp'')])]
                  [(''payment_structure'', JDict [(''terms'', JStr ''Net 30'')])]) =
     Inr \<lparr>party_identification = JDict [(''name'', JStr ''ACME Corp'')],
          account_information = JNull, financial_details = JNull,
          payment_structure = JDict [(''terms'', JStr ''Net 30'')],
          revenue_classification = JNull, service_level_agreements = JNull,
          confidence_scores = JDict [], gaps = JList []\<rparr>
   \<and> map_of (case merge_and_validate ExtractedContract_init
                   (JDict [(''party_identification'', JDict [(''name'', JStr ''ACME Corp'')])])
                   (JDict [(''payment_structure'', JDict [(''terms'', JStr ''Net 30'')])]) of
               Inl e \<Rightarrow> [] | Inr extracted \<Rightarrow> extracted) ''account_information'' = Some JNull
   \<and> ExtractedContract_init
        (dict_merge [(''confidence_scores'', JDict [(''party_identification'', JStr ''high'')])]
                    [(''payment_structure'', JDict [(''terms'', JStr ''Net 30'')])]) =
       Inl (ValidationError ''value is not a valid float'')
   \<and> merge_and_validate ExtractedContract_init
        (JDict [(''confidence_scores'', JDict [(''party_identification'', JStr ''high'')])])
        (JDict [(''payment_structure'', JDict [(''terms'', JStr ''Net 30'')])]) =
       Inr [(''confidence_scores'', JDict [(''party_identification'', JStr ''high'')]),
            (''payment_structure'', JDict [(''terms'', JStr ''Net 30'')])]"
proof -
  let ?d1 = "[(''party_identification'', JDict [(''name'', JStr ''ACME Corp'')])]"
  let ?d2 = "[(''payment_structure'', JDict [(''terms'', JStr ''Net 30'')])]"
  let ?r = "\<lparr>party_identification = JDict [(''name'', JStr ''ACME Corp'')],
          account_information = JNull, financial_details = JNull,
          payment_structure = JDict [(''terms'', JStr ''Net 30'')],
          revenue_classification = JNull, service_level_agreements = JNull,
          confidence_scores = JDict [], gaps = JList []\<rparr>"
  let ?d3 = "[(''confidence_scores'', JDict [(''party_identification'', JStr ''high'')])]"
  let ?d4 = "[(''payment_structure'', JDict [(''terms'', JStr ''Net 30'')])]"
  have a: "ExtractedContract_init (dict_merge ?d1 ?d2) = Inr ?r"
    by (simp add: dict_merge_def ExtractedContract_init_def)
  have b: "ExtractedContract_init (dict_merge ?d3 ?d4) =
             Inl (ValidationError ''value is not a valid float'')"
    by (simp add: dict_merge_def ExtractedContract_init_def)
  from category_keys_after_validation [of ExtractedContract_init ?d1 ?d2 ?r] a
  have c: "merge_and_validate ExtractedContract_init (JDict ?d1) (JDict ?d2) = Inr (model_dict ?r)"
    by blast
  from category_keys_after_validation
    [of ExtractedContract_init ?d3 ?d4 _ "''value is not a valid float''"] b
  have d: "merge_and_validate ExtractedContract_init (JDict ?d3) (JDict ?d4) =
             Inr (dict_merge ?d3 ?d4)"
    by blast
  have "map_of (model_dict ?r) ''account_information'' = Some JNull"
    by (simp add: model_dict_def)
  moreover have "dict_merge ?d3 ?d4 = ?d3 @ ?d4" by (simp add: dict_merge_def)
  ultimately show ?thesis using a b d by (simp add: c)
qed

section \<open>The job record\<close>




text \<open>
  Claim C8. Take the job as the upload creates it, followed by the records that a run
  leaves after each of its blocks of assignments. In every one of them \<^verbatim>\<open>data\<close> is set
  exactly when the status is completed and \<^verbatim>\<open>error\<close> exactly when it is failed. Each step
  goes from pending to processing, stays processing, or goes from processing to completed
  or failed, and never lowers the progress, which runs 0, 10, 100 or 0, 10, 40, 100. Only
  the last record is completed or failed, so nothing follows a terminal state; it is
  completed exactly when no exception reached the outer handler.
\<close>

theorem job_lifecycle:
  "list_all job_invariant (new_job # process_contract_trace env file_path new_job)
   \<and> successively step_ok (new_job # process_contract_trace env file_path new_job)
   \<and> map progress (new_job # process_contract_trace env file_path new_job)
        \<in> set [[0, 10, 100], [0, 10, 40, 100]]
   \<and> list_all (\<lambda>j. status j \<notin> set [''completed'', ''failed''])
        (butlast (new_job # process_contract_trace env file_path new_job))
   \<and> status (process_contract env file_path new_job) \<in> set [''completed'', ''failed'']
   \<and> (status (process_contract env file_path new_job) = ''completed'')
        = (raised env file_path = None)"
  by (auto simp: process_contract_def process_contract_trace_def raised_def Let_def
      job_invariant_def step_ok_def new_job_def job_failed_def job_completed_def
      split: sum.splits)

section \<open>Upload\<close>

lemma lower_char_dot: "(lower_char c = CHR ''.'') = (c = CHR ''.'')"
  by (simp add: lower_char_def) 

lemma lower_char_p: "(lower_char c = CHR ''p'') = (c \<in> set ''pP'')"
  by (auto simp: lower_char_def)

lemma lower_char_d: "(lower_char c = CHR ''d'') = (c \<in> set ''dD'')"
  by (auto simp: lower_char_def)

lemma lower_char_f: "(lower_char c = CHR ''f'') = (c \<in> set ''fF'')"
  by (auto simp: lower_char_def)

lemma endswith_append: "endswith s suffix = (\<exists>base. s = base @ suffix)"
proof
  assume "endswith s suffix"
  then have "s = take (length s - length suffix) s @ suffix"
    by (metis append_take_drop_id endswith_def)
  then show "\<exists>base. s = base @ suffix" ..
next
  assume "\<exists>base. s = base @ suffix"
  then show "endswith s suffix" by (auto simp: endswith_def)
qed

lemma endswith_lower_pdf:
  "endswith (lower filename) ''.pdf'' =
     (\<exists>base p d f. filename = base @ [CHR ''.'', p, d, f]
        \<and> p \<in> set ''pP'' \<and> d \<in> set ''dD'' \<and> f \<in> set ''fF'')"
proof
  assume "endswith (lower filename) ''.pdf''"
  then obtain b where b: "map lower_char filename = b @ ''.pdf''"
    by (auto simp: endswith_append lower_def)
  then obtain base t where f: "filename = base @ t" and t: "map lower_char t = ''.pdf''"
    by (auto simp: map_eq_append_conv)
  from t obtain c0 c1 c2 c3 where t': "t = [c0, c1, c2, c3]"
    by (auto simp: map_eq_Cons_conv)
  from t t' have "c0 = CHR ''.''" "c1 \<in> set ''pP''" "c2 \<in> set ''dD''" "c3 \<in> set ''fF''"
    using lower_char_dot [of c0] lower_char_p [of c1] lower_char_d [of c2] lower_char_f [of c3]
    by simp_all
  with f t' show "\<exists>base p d f. filename = base @ [CHR ''.'', p, d, f]
        \<and> p \<in> set ''pP'' \<and> d \<in> set ''dD'' \<and> f \<in> set ''fF''"
    by blast
next
  assume "\<exists>base p d f. filename = base @ [CHR ''.'', p, d, f]
        \<and> p \<in> set ''pP'' \<and> d \<in> set ''dD'' \<and> f \<in> set ''fF''"
  then obtain base p d f where f: "filename = base @ [CHR ''.'', p, d, f]"
    and c: "p \<in> set ''pP''" "d \<in> set ''dD''" "f \<in> set ''fF''"
    by blast
  have "lower filename = map lower_char base @ ''.pdf''"
    using c lower_char_dot [of "CHR ''.''"] lower_char_p [of p] lower_char_d [of d]
      lower_char_f [of f]
    by (simp add: f lower_def)
  then show "endswith (lower filename) ''.pdf''"
    by (auto simp: endswith_append)
qed

text \<open>
  Claim C9. A file name passes the check exactly when it ends in a dot followed by the
  letters p, d, f, each in either case. For a name that does not pass, the endpoint raises
  the HTTP error 400 with the detail "Only PDF files are supported." and leaves the
  registries as they were. For a name that passes, it returns the generated
  \<^verbatim>\<open>contract_id\<close> and registers under it a job with the status pending, the progress 0
  and neither data nor error, the other jobs being untouched.
\<close>

theorem upload_rejects_non_pdf:
  "endswith (lower filename) ''.pdf'' =
     (\<exists>base p d f. filename = base @ [CHR ''.'', p, d, f]
        \<and> p \<in> set ''pP'' \<and> d \<in> set ''dD'' \<and> f \<in> set ''fF'')
   \<and> (\<not> endswith (lower filename) ''.pdf'' \<longrightarrow>
        upload_contract s filename contract_id =
          (Inl (HTTPException 400 ''Only PDF files are supported.''), s))
   \<and> (endswith (lower filename) ''.pdf'' \<longrightarrow>
        fst (upload_contract s filename contract_id) = Inr [(''contract_id'', JStr contract_id)]
        \<and> (\<exists>j. CONTRACTS (snd (upload_contract s filename contract_id)) contract_id = Some j
               \<and> status j = ''pending'' \<and> progress j = 0 \<and> data j = None \<and> error j = None)
        \<and> (other \<noteq> contract_id \<longrightarrow>
             CONTRACTS (snd (upload_contract s filename contract_id)) other = CONTRACTS s other))"
proof (intro conjI impI)
  show "endswith (lower filename) ''.pdf'' =
     (\<exists>base p d f. filename = base @ [CHR ''.'', p, d, f]
        \<and> p \<in> set ''pP'' \<and> d \<in> set ''dD'' \<and> f \<in> set ''fF'')"
    by (rule endswith_lower_pdf)
qed (simp_all add: upload_contract_def Let_def new_job_def)

text \<open>
  C9 at the names \<^verbatim>\<open>test.txt\<close> and \<^verbatim>\<open>Sample.PDF\<close>, on empty registries.
\<close>

theorem upload_rejects_non_pdf_witness:
  "\<not> endswith (lower ''test.txt'') ''.pdf''
   \<and> upload_contract \<lparr>CONTRACTS = Map.empty, CONTRACT_FILES = Map.empty, background_tasks = []\<rparr>
        ''test.txt'' ''c1'' =
       (Inl (HTTPException 400 ''Only PDF files are supported.''),
        \<lparr>CONTRACTS = Map.empty, CONTRACT_FILES = Map.empty, background_tasks = []\<rparr>)
   \<and> endswith (lower ''Sample.PDF'') ''.pdf''
   \<and> fst (upload_contract
             \<lparr>CONTRACTS = Map.empty, CONTRACT_FILES = Map.empty, background_tasks = []\<rparr>
             ''Sample.PDF'' ''c1'') = Inr [(''contract_id'', JStr ''c1'')]
   \<and> (\<exists>j. CONTRACTS (snd (upload_contract
             \<lparr>CONTRACTS = Map.empty, CONTRACT_FILES = Map.empty, background_tasks = []\<rparr>
             ''Sample.PDF'' ''c1'')) ''c1'' = Some j
          \<and> status j = ''pending'' \<and> progress j = 0 \<and> data j = None \<and> error j = None)
   \<and> ''c2'' \<noteq> ''c1''
   \<and> CONTRACTS (snd (upload_contract
             \<lparr>CONTRACTS = Map.empty, CONTRACT_FILES = Map.empty, background_tasks = []\<rparr>
             ''Sample.PDF'' ''c1'')) ''c2'' = None"
proof -
  let ?s = "\<lparr>CONTRACTS = Map.empty, CONTRACT_FILES = Map.empty, background_tasks = []\<rparr>"
  have a: "\<not> endswith (lower ''test.txt'') ''.pdf''"
    by (simp add: endswith_def lower_def lower_char_def)
  have b: "endswith (lower ''Sample.PDF'') ''.pdf''"
    by (simp add: endswith_def lower_def lower_char_def)
  have n: "''c2'' \<noteq> ''c1''" by simp
  from upload_rejects_non_pdf [of "''test.txt''" ?s "''c1''"] a
  have r: "upload_contract ?s ''test.txt'' ''c1'' =
          (Inl (HTTPException 400 ''Only PDF files are supported.''), ?s)"
    by blast
  from upload_rejects_non_pdf [of "''Sample.PDF''" ?s "''c1''" "''c2''"] b n
  have "fst (upload_contract ?s ''Sample.PDF'' ''c1'') = Inr [(''contract_id'', JStr ''c1'')]"
    and "\<exists>j. CONTRACTS (snd (upload_contract ?s ''Sample.PDF'' ''c1'')) ''c1'' = Some j
          \<and> status j = ''pending'' \<and> progress j = 0 \<and> data j = None \<and> error j = None"
    and "CONTRACTS (snd (upload_contract ?s ''Sample.PDF'' ''c1'')) ''c2'' = CONTRACTS ?s ''c2''"
    by blast+
  with a b n r show ?thesis by simp
qed

section \<open>The flow of the test suite\<close>

text \<open>
  The run of \<^verbatim>\<open>test_process_contract_flow_and_get_data\<close> on the embedding: the job
  completes, its data carry the name of the first group's payload, and the score is 94
  (0.8 reported for the financial category, 1 derived for the other four).
\<close>

lemma fake_call_groq_fields:
  "fake_call_groq t fields1 = Inr (JDict
        [(''party_identification'', JDict [(''name'', JStr ''ACME Corp'')]),
         (''account_information'', JDict [(''billing'', JStr ''123 Main St'')]),
         (''financial_details'', JDict [(''total'', JNum 1000)]),
         (''confidence_scores'', JDict [(''financial_completeness'', JNum (4 / 5))])])"
  "fake_call_groq t fields2 = Inr (JDict
        [(''payment_structure'', JDict [(''terms'', JStr ''Net 30'')]),
         (''revenue_classification'', JDict [(''type'', JStr ''recurring'')]),
         (''service_level_agreements'', JDict [(''uptime'', JStr ''99.9'')])])"
  by (simp_all add: fake_call_groq_def fields1_def fields2_def)

lemma test_flow_validated:
  "merge_and_validate ExtractedContract_init
     (JDict
        [(''party_identification'', JDict [(''name'', JStr ''ACME Corp'')]),
         (''account_information'', JDict [(''billing'', JStr ''123 Main St'')]),
         (''financial_details'', JDict [(''total'', JNum 1000)]),
         (''confidence_scores'', JDict [(''financial_completeness'', JNum (4 / 5))])])
     (JDict
        [(''payment_structure'', JDict [(''terms'', JStr ''Net 30'')]),
         (''revenue_classification'', JDict [(''type'', JStr ''recurring'')]),
         (''service_level_agreements'', JDict [(''uptime'', JStr ''99.9'')])]) =
   Inr [(''party_identification'', JDict [(''name'', JStr ''ACME Corp'')]),
      (''account_information'', JDict [(''billing'', JStr ''123 Main St'')]),
      (''financial_details'', JDict [(''total'', JNum 1000)]),
      (''payment_structure'', JDict [(''terms'', JStr ''Net 30'')]),
      (''revenue_classification'', JDict [(''type'', JStr ''recurring'')]),
      (''service_level_agreements'', JDict [(''uptime'', JStr ''99.9'')]),
      (''confidence_scores'', JDict [(''financial_completeness'', JNum (4 / 5))]),
      (''gaps'', JList [])]"
  by (simp add: merge_and_validate_def merge_results_def dict_merge_def validate_step_def
      ExtractedContract_init_def model_dict_def)

lemma test_flow_derived:
  "derive_confidence_and_gaps sf
     [(''party_identification'', JDict [(''name'', JStr ''ACME Corp'')]),
      (''account_information'', JDict [(''billing'', JStr ''123 Main St'')]),
      (''financial_details'', JDict [(''total'', JNum 1000)]),
      (''payment_structure'', JDict [(''terms'', JStr ''Net 30'')]),
      (''revenue_classification'', JDict [(''type'', JStr ''recurring'')]),
      (''service_level_agreements'', JDict [(''uptime'', JStr ''99.9'')]),
      (''confidence_scores'', JDict [(''financial_completeness'', JNum (4 / 5))]),
      (''gaps'', JList [])] =
    ([(''financial_completeness'', 1), (''party_identification'', 1),
      (''payment_terms_clarity'', 1), (''sla_definition'', 1), (''contact_information'', 1)], [])"
  by (simp add: derive_explicit mapping_def py_get_def py_or_def py_round_values
      not_in_empties_def)

lemma test_flow_finalize:
  "finalize sf
     [(''party_identification'', JDict [(''name'', JStr ''ACME Corp'')]),
      (''account_information'', JDict [(''billing'', JStr ''123 Main St'')]),
      (''financial_details'', JDict [(''total'', JNum 1000)]),
      (''payment_structure'', JDict [(''terms'', JStr ''Net 30'')]),
      (''revenue_classification'', JDict [(''type'', JStr ''recurring'')]),
      (''service_level_agreements'', JDict [(''uptime'', JStr ''99.9'')]),
      (''confidence_scores'', JDict [(''financial_completeness'', JNum (4 / 5))]),
      (''gaps'', JList [])] =
     Inr [(''party_identification'', JDict [(''name'', JStr ''ACME Corp'')]),
      (''account_information'', JDict [(''billing'', JStr ''123 Main St'')]),
      (''financial_details'', JDict [(''total'', JNum 1000)]),
      (''payment_structure'', JDict [(''terms'', JStr ''Net 30'')]),
      (''revenue_classification'', JDict [(''type'', JStr ''recurring'')]),
      (''service_level_agreements'', JDict [(''uptime'', JStr ''99.9'')]),
      (''confidence_scores'',
       JDict
        [(''financial_completeness'', JNum (4 / 5)),
         (''party_identification'', JNum 1),
         (''payment_terms_clarity'', JNum 1), (''sla_definition'', JNum 1),
         (''contact_information'', JNum 1)]),
      (''gaps'', JList []), (''score'', JNum 94)]"
  unfolding finalize_def test_flow_derived
  by (simp add: py_get_def py_or_def py_round_values float_dict_def gaps_json_def
      dict_merge_def py_get_default_def compute_contract_score_def weights_def)

lemma test_flow_completed:
  "status (process_contract test_collaborators ''uploaded_contracts/c1.pdf'' new_job) = ''completed''
   \<and> map_option (\<lambda>d. (py_get d ''party_identification'', py_get d ''score''))
        (data (process_contract test_collaborators ''uploaded_contracts/c1.pdf'' new_job)) =
       Some (JDict [(''name'', JStr ''ACME Corp'')], JNum 94)"
proof -
  have "extract_and_score test_collaborators ''fake text'' =
      finalize (\<lambda>s. None)
     [(''party_identification'', JDict [(''name'', JStr ''ACME Corp'')]),
      (''account_information'', JDict [(''billing'', JStr ''123 Main St'')]),
      (''financial_details'', JDict [(''total'', JNum 1000)]),
      (''payment_structure'', JDict [(''terms'', JStr ''Net 30'')]),
      (''revenue_classification'', JDict [(''type'', JStr ''recurring'')]),
      (''service_level_agreements'', JDict [(''uptime'', JStr ''99.9'')]),
      (''confidence_scores'', JDict [(''financial_completeness'', JNum (4 / 5))]),
      (''gaps'', JList [])]"
    unfolding extract_and_score_def
    by (simp add: test_collaborators_def fake_call_groq_fields test_flow_validated)
  then show ?thesis
    by (simp add: process_contract_def process_contract_trace_def test_flow_finalize
        test_collaborators_def job_completed_def new_job_def py_get_def)
qed

end
